theory Spec2Isabelle
  imports Complex_Main
begin

section \<open>The sources\<close>

text \<open>
  The file \<^verbatim>\<open>server.js\<close> holds two listings of the quiz server, one after the other. The
  first (lines 1 to 246) advances by its own timers from question to question; the second
  (lines 247 to 501) waits for the host's \<^verbatim>\<open>next-question\<close> before each question and
  ends the quiz itself after the last one. \<^verbatim>\<open>src/unnamed/part_001\<close> is a third listing,
  without host, player limit or name check and with another score for later correct
  answers. The first listing is modelled in full with its timers, the second in what it
  does differently, the third without running its timers.
\<close>

section \<open>Strings\<close>

text \<open>
  The handlers compare names and answer options after \<^verbatim>\<open>trim()\<close> and
  \<^verbatim>\<open>toLowerCase()\<close>. Strings are modelled as lists of 8-bit characters and the two
  operations on their ASCII part: \<open>trim\<close> strips tab, line feed, vertical tab, form feed,
  carriage return and space from both ends, \<open>toLowerCase\<close> maps \<open>A\<close>..\<open>Z\<close> to
  \<open>a\<close>..\<open>z\<close> and leaves every other character as it is.
\<close>

definition isSpace :: "char \<Rightarrow> bool" where
  "isSpace c = (c \<in> set [CHR 0x09, CHR 0x0A, CHR 0x0B, CHR 0x0C, CHR 0x0D, CHR 0x20])"

definition trim :: "string \<Rightarrow> string" where
  "trim s = rev (dropWhile isSpace (rev (dropWhile isSpace s)))"

definition lowerChar :: "char \<Rightarrow> char" where
  "lowerChar c =
     (let n = (of_char c :: nat) in if 65 \<le> n \<and> n \<le> 90 then char_of (n + 32) else c)"

definition toLowerCase :: "string \<Rightarrow> string" where
  "toLowerCase s = map lowerChar s"

section \<open>Data of server.js\<close>

type_synonym sid = string
type_synonym roomCode = string
type_synonym handle = nat
type_synonym addr = nat

text \<open>A player object \<^verbatim>\<open>{ id, name, score }\<close>; \<open>pid\<close> is the field \<^verbatim>\<open>id\<close>.\<close>

record player =
  pid :: sid
  name :: string
  score :: int

text \<open>
  A question object; \<open>qtext\<close> is the field \<^verbatim>\<open>text\<close>. The type of \<open>correct\<close> is a
  parameter: \<open>string option\<close> for a question as the host sends it (the field may be absent),
  \<open>string\<close> once \<^verbatim>\<open>send-multiple-questions\<close> has stored it. \<open>timeLimit\<close> is a number
  of seconds that may be absent.
\<close>

record 'c question =
  qtext :: string
  options :: "string list"
  correct :: 'c
  timeLimit :: "rat option"

text \<open>
  The room object of \<^verbatim>\<open>create-room\<close>. A JavaScript \<^verbatim>\<open>Set\<close> keeps its elements in
  insertion order without duplicates: \<open>answeredPlayers\<close> is such a list. Timer handles are
  natural numbers, \<open>None\<close> is \<^verbatim>\<open>null\<close>. \<open>questionStartTime\<close> and
  \<open>firstCorrectAnswered\<close> are not set at creation in the first listing: \<open>None\<close> and
  \<open>False\<close> stand for \<^verbatim>\<open>undefined\<close>.
\<close>

record room =
  hostId :: sid
  players :: "player list"
  questions :: "string question list"
  currentIndex :: nat
  answeredPlayers :: "sid list"
  timer :: "handle option"
  countdownInterval :: "handle option"
  quizStarted :: bool
  maxPlayers :: int
  questionStartTime :: "int option"
  firstCorrectAnswered :: bool

text \<open>
  The callbacks handed to \<^verbatim>\<open>setInterval\<close> and \<^verbatim>\<open>setTimeout\<close>, with what each closure
  captured: the countdown and the deadline hold the room object itself (its address), every
  other callback only the room code and looks the room up again when it runs.
\<close>

datatype task =
    Countdown addr roomCode rat
  | Deadline addr roomCode "string question"
  | Reveal roomCode
  | Advance roomCode
  | Final roomCode "player list"

datatype target = ToRoom roomCode | ToSocket sid

datatype message =
    RoomCreated roomCode
  | RoomError string
  | RoomFull string
  | LobbyUpdate "player list" int
  | QuizStarted
  | Question "string question"
  | TimeLeft rat
  | QuestionLocked
  | AllAnswered string
  | QuestionEnded
  | Leaderboard "player list"
  | FinalLeaderboard "player list"
  | QuizEnd
  | Kicked

type_synonym emit = "target \<times> message"

text \<open>
  The state of the process: \<open>rooms\<close> is the registry object (room code to room object, in
  creation order), \<open>heap\<close> holds the room objects, which outlive their registry entry as long
  as a timer closure refers to them, \<open>timers\<close> are the pending timers with the time in
  milliseconds from which each may run, \<open>sockets\<close> are the connected sockets
  (\<^verbatim>\<open>io.sockets.sockets\<close>).
\<close>

record server =
  rooms :: "(roomCode \<times> addr) list"
  heap :: "addr \<Rightarrow> room option"
  nextAddr :: addr
  timers :: "(handle \<times> rat \<times> task) list"
  nextHandle :: handle
  sockets :: "sid set"

text \<open>
  What the model does not follow: a score that JavaScript would compute as \<^verbatim>\<open>NaN\<close> or
  an infinity (\<open>NonFiniteScore\<close>), a handler that throws (\<open>TypeError\<close>), and the steps of
  an environment that fires a timer which is not pending or not yet due, or sends an event
  from a socket that is not connected.
\<close>

datatype fault = NonFiniteScore | TypeError | NoSuchTimer | NotYetDue | NotConnected

definition init :: server where
  "init = \<lparr>rooms = [], heap = (\<lambda>_. None), nextAddr = 0, timers = [], nextHandle = 0,
           sockets = {}\<rparr>"

definition room_at :: "server \<Rightarrow> roomCode \<Rightarrow> (addr \<times> room) option" where
  "room_at s c =
     (case map_of (rooms s) c of
        None \<Rightarrow> None
      | Some a \<Rightarrow> (case heap s a of None \<Rightarrow> None | Some r \<Rightarrow> Some (a, r)))"

definition put :: "addr \<Rightarrow> room \<Rightarrow> server \<Rightarrow> server" where
  "put a r s = s\<lparr>heap := (heap s)(a := Some r)\<rparr>"

definition deleteRoom :: "roomCode \<Rightarrow> server \<Rightarrow> server" where
  "deleteRoom c s = s\<lparr>rooms := filter (\<lambda>ca. fst ca \<noteq> c) (rooms s)\<rparr>"

definition setTimer :: "rat \<Rightarrow> task \<Rightarrow> server \<Rightarrow> handle \<times> server" where
  "setTimer due t s =
     (nextHandle s,
      s\<lparr>timers := timers s @ [(nextHandle s, due, t)], nextHandle := Suc (nextHandle s)\<rparr>)"

definition clearTimer :: "handle option \<Rightarrow> server \<Rightarrow> server" where
  "clearTimer ho s =
     (case ho of
        None \<Rightarrow> s
      | Some h \<Rightarrow> s\<lparr>timers := filter (\<lambda>e. fst e \<noteq> h) (timers s)\<rparr>)"

definition nth_opt :: "'a list \<Rightarrow> nat \<Rightarrow> 'a option" where
  "nth_opt xs i = (if i < length xs then Some (xs ! i) else None)"

text \<open>
  \<^verbatim>\<open>[...room.players].sort((a, b) => b.score - a.score)\<close>: a stable sort, descending by
  score.
\<close>

definition ranked :: "player list \<Rightarrow> player list" where
  "ranked ps = sort_key (\<lambda>p. - score p) ps"

section \<open>The handlers of server.js, first listing\<close>

text \<open>
  Every handler takes the state and returns the new state with the messages it emits, in
  order. \<open>now\<close> is the value of \<^verbatim>\<open>Date.now()\<close>, in milliseconds.
\<close>

definition create_room :: "sid \<Rightarrow> roomCode \<Rightarrow> int option \<Rightarrow> server \<Rightarrow> server \<times> emit list" where
  "create_room sid c mp s =
     (let s' =
        (if room_at s c = None then
           s\<lparr>rooms := rooms s @ [(c, nextAddr s)],
             heap := (heap s)(nextAddr s := Some
               \<lparr>hostId = sid, players = [], questions = [], currentIndex = 0,
                answeredPlayers = [], timer = None, countdownInterval = None,
                quizStarted = False,
                maxPlayers = (case mp of None \<Rightarrow> 10 | Some m \<Rightarrow> if m = 0 then 10 else m),
                questionStartTime = None, firstCorrectAnswered = False\<rparr>),
             nextAddr := Suc (nextAddr s)\<rparr>
         else s)
      in (s', [(ToSocket sid, RoomCreated c)]))"

definition sameName :: "string \<Rightarrow> player \<Rightarrow> bool" where
  "sameName nm p = (trim (toLowerCase (name p)) = trim (toLowerCase nm))"

definition join_room :: "sid \<Rightarrow> string \<Rightarrow> roomCode \<Rightarrow> server \<Rightarrow> server \<times> emit list" where
  "join_room sid nm c s =
     (case room_at s c of
        None \<Rightarrow> (s, [(ToSocket sid, RoomError ''Room does not exist.'')])
      | Some (a, r) \<Rightarrow>
          if sid = hostId r then (s, [])
          else
            (let r1 = r\<lparr>players := filter (\<lambda>p. pid p \<in> sockets s) (players r)\<rparr>;
                 s1 = put a r1 s
             in if maxPlayers r1 \<le> int (length (players r1))
                then (s1, [(ToSocket sid, RoomFull ''Room is full.'')])
                else if list_ex (sameName nm) (players r1)
                then (s1, [(ToSocket sid, RoomError ''Name already taken.'')])
                else
                  (let r2 = r1\<lparr>players := players r1 @ [\<lparr>pid = sid, name = nm, score = 0\<rparr>]\<rparr>
                   in (put a r2 s1, [(ToRoom c, LobbyUpdate (players r2) (maxPlayers r2))]))))"

text \<open>\<^verbatim>\<open>correct: q.correct?.trim() || 'N/A'\<close>: the empty string is falsy.\<close>

definition normalise :: "string option question \<Rightarrow> string question" where
  "normalise q =
     \<lparr>qtext = qtext q, options = options q,
      correct = (case correct q of
                   None \<Rightarrow> ''N/A''
                 | Some x \<Rightarrow> if trim x = [] then ''N/A'' else trim x),
      timeLimit = timeLimit q\<rparr>"

definition send_multiple_questions ::
    "roomCode \<Rightarrow> string option question list \<Rightarrow> server \<Rightarrow> server \<times> emit list" where
  "send_multiple_questions c qs s =
     (case room_at s c of
        None \<Rightarrow> (s, [])
      | Some (a, r) \<Rightarrow> (put a (r\<lparr>questions := map normalise qs, currentIndex := 0\<rparr>) s, []))"

text \<open>\<^verbatim>\<open>let timeLeft = question.timeLimit || 15\<close>\<close>

definition countdownStart :: "'c question \<Rightarrow> rat" where
  "countdownStart q = (case timeLimit q of None \<Rightarrow> 15 | Some l \<Rightarrow> if l = 0 then 15 else l)"

definition startNextQuestion :: "roomCode \<Rightarrow> int \<Rightarrow> server \<Rightarrow> server \<times> emit list" where
  "startNextQuestion c now s =
     (case room_at s c of
        None \<Rightarrow> (s, [])
      | Some (a, r) \<Rightarrow>
          if length (questions r) \<le> currentIndex r then
            (s, [(ToRoom c, FinalLeaderboard (take 5 (ranked (players r)))),
                 (ToRoom c, QuizEnd)])
          else
            (let q = questions r ! currentIndex r;
                 timeLeft = countdownStart q;
                 (h1, s1) = setTimer (of_int now + 1000) (Countdown a c timeLeft) s;
                 (h2, s2) = setTimer (of_int now + timeLeft * 1000) (Deadline a c q) s1
             in (put a (r\<lparr>answeredPlayers := [], firstCorrectAnswered := False,
                          questionStartTime := Some now,
                          countdownInterval := Some h1, timer := Some h2\<rparr>) s2,
                 [(ToRoom c, Question q)])))"

definition start_quiz :: "roomCode \<Rightarrow> int \<Rightarrow> server \<Rightarrow> server \<times> emit list" where
  "start_quiz c now s =
     (case room_at s c of
        None \<Rightarrow> (s, [])
      | Some (a, r) \<Rightarrow> startNextQuestion c now (put a (r\<lparr>quizStarted := True\<rparr>) s))"

definition endCurrentQuestion :: "roomCode \<Rightarrow> int \<Rightarrow> server \<Rightarrow> server \<times> emit list" where
  "endCurrentQuestion c now s =
     (case room_at s c of
        None \<Rightarrow> (s, [])
      | Some (a, r) \<Rightarrow>
          (let s1 = put a (r\<lparr>currentIndex := Suc (currentIndex r)\<rparr>) s;
               (h, s2) = setTimer (of_int now + 5000) (Advance c) s1
           in (s2, [(ToRoom c, QuestionEnded), (ToRoom c, Leaderboard (ranked (players r)))])))"

text \<open>
  \<^verbatim>\<open>player.score += score\<close>: \<^verbatim>\<open>player\<close> is the object that \<^verbatim>\<open>find\<close> returned, the
  first player of the roster with the socket's id.
\<close>

fun addScore :: "sid \<Rightarrow> int \<Rightarrow> player list \<Rightarrow> player list" where
  "addScore x n [] = []"
| "addScore x n (p # ps) =
     (if pid p = x then p\<lparr>score := score p + n\<rparr> # ps else p # addScore x n ps)"

definition isCorrect :: "string \<Rightarrow> string question \<Rightarrow> bool" where
  "isCorrect opt q = (toLowerCase (trim opt) = toLowerCase (trim (correct q)))"

text \<open>
  The body of \<^verbatim>\<open>if (isCorrect)\<close>. Numbers are exact rationals; the rounding of IEEE doubles
  is not modelled. With \<^verbatim>\<open>firstCorrectAnswered\<close> set, a missing start time or time limit
  makes the score \<^verbatim>\<open>NaN\<close> and a time limit of 0 makes it \<^verbatim>\<open>NaN\<close> or an infinity.
\<close>

definition laterScore :: "int option \<Rightarrow> int \<Rightarrow> rat option \<Rightarrow> fault + int" where
  "laterScore start now limit =
     (case (start, limit) of
        (Some t0, Some l) \<Rightarrow>
          if l = 0 then Inl NonFiniteScore
          else
            (let timeTaken = of_int (now - t0) / 1000;
                 timeLeft = l - timeTaken
             in Inr \<lfloor>500 + (timeLeft / l) * 500\<rfloor>)
      | _ \<Rightarrow> Inl NonFiniteScore)"

definition scoreCorrect :: "sid \<Rightarrow> int \<Rightarrow> string question \<Rightarrow> room \<Rightarrow> fault + room" where
  "scoreCorrect x now q r =
     (if \<not> firstCorrectAnswered r then
        Inr (r\<lparr>players := addScore x 1000 (players r), firstCorrectAnswered := True\<rparr>)
      else
        (case laterScore (questionStartTime r) now (timeLimit q) of
           Inl e \<Rightarrow> Inl e
         | Inr n \<Rightarrow> Inr (r\<lparr>players := addScore x n (players r)\<rparr>)))"

definition lockByAnswers :: "addr \<Rightarrow> roomCode \<Rightarrow> int \<Rightarrow> string question \<Rightarrow> room \<Rightarrow> server
    \<Rightarrow> server \<times> emit list" where
  "lockByAnswers a c now q r s =
     (if length (answeredPlayers r) = length (players r) then
        (let s1 = clearTimer (countdownInterval r) (clearTimer (timer r) s);
             (h, s2) = setTimer (of_int now + 2500) (Reveal c) s1
         in (s2, [(ToRoom c, AllAnswered (correct q))]))
      else (s, []))"

definition answer :: "sid \<Rightarrow> string \<Rightarrow> roomCode \<Rightarrow> int \<Rightarrow> server \<Rightarrow> fault + server \<times> emit list" where
  "answer x opt c now s =
     (case room_at s c of
        None \<Rightarrow> Inr (s, [])
      | Some (a, r) \<Rightarrow>
          (case (find (\<lambda>p. pid p = x) (players r), nth_opt (questions r) (currentIndex r)) of
             (Some p, Some q) \<Rightarrow>
               if x \<in> set (answeredPlayers r) then Inr (s, [])
               else
                 (let r1 = r\<lparr>answeredPlayers := answeredPlayers r @ [x]\<rparr> in
                  case (if isCorrect opt q then scoreCorrect x now q r1 else Inr r1) of
                    Inl e \<Rightarrow> Inl e
                  | Inr r2 \<Rightarrow> Inr (lockByAnswers a c now q r2 (put a r2 s)))
           | _ \<Rightarrow> Inr (s, [])))"

text \<open>
  The loop body of the \<^verbatim>\<open>disconnect\<close> handler for one registry entry, and the handler. By
  the time the handler runs the socket is no longer among the connected ones.
\<close>

definition disconnect_room :: "sid \<Rightarrow> roomCode \<times> addr \<Rightarrow> server \<times> emit list \<Rightarrow> server \<times> emit list" where
  "disconnect_room x ca acc =
     (case heap (fst acc) (snd ca) of
        None \<Rightarrow> acc
      | Some r \<Rightarrow>
          if hostId r = x then (deleteRoom (fst ca) (fst acc), snd acc)
          else if find (\<lambda>p. pid p = x) (players r) \<noteq> None then
            (let r' = r\<lparr>players := filter (\<lambda>p. pid p \<noteq> x) (players r),
                        answeredPlayers := removeAll x (answeredPlayers r)\<rparr>
             in (put (snd ca) r' (fst acc),
                 snd acc @ [(ToRoom (fst ca), LobbyUpdate (players r') (maxPlayers r'))]))
          else acc)"

definition disconnect :: "sid \<Rightarrow> server \<Rightarrow> server \<times> emit list" where
  "disconnect x s = fold (disconnect_room x) (rooms s) (s\<lparr>sockets := sockets s - {x}\<rparr>, [])"

text \<open>
  \<^verbatim>\<open>io.sockets.sockets.get(playerId)?.disconnect(true)\<close> closes the connection of the
  removed player if there is one, which runs that socket's \<^verbatim>\<open>disconnect\<close> handler.
\<close>

definition kick_player :: "roomCode \<Rightarrow> sid \<Rightarrow> server \<Rightarrow> server \<times> emit list" where
  "kick_player c playerId s =
     (case room_at s c of
        None \<Rightarrow> (s, [])
      | Some (a, r) \<Rightarrow>
          (let r' = r\<lparr>players := filter (\<lambda>p. pid p \<noteq> playerId) (players r)\<rparr>;
               s1 = put a r' s;
               out = [(ToRoom c, LobbyUpdate (players r') (maxPlayers r')),
                      (ToSocket playerId, Kicked)]
           in if playerId \<in> sockets s1
              then (fst (disconnect playerId s1), out @ snd (disconnect playerId s1))
              else (s1, out)))"

definition end_quiz :: "roomCode \<Rightarrow> server \<Rightarrow> server \<times> emit list" where
  "end_quiz c s =
     (case room_at s c of
        None \<Rightarrow> (s, [])
      | Some (a, r) \<Rightarrow>
          (deleteRoom c (clearTimer (countdownInterval r) (clearTimer (timer r) s)),
           [(ToRoom c, FinalLeaderboard (take 5 (ranked (players r)))), (ToRoom c, QuizEnd)]))"

section \<open>Timers and runs\<close>

text \<open>
  What each timer callback of the first listing does when it runs. A one-shot timer leaves
  the pending list as it fires; the interval stays, due again a second later, unless
  \<^verbatim>\<open>clearInterval\<close> removes it. The countdown and the deadline read
  \<^verbatim>\<open>room.countdownInterval\<close> from the room object they captured. The first listing
  creates no \<open>Final\<close> timer.
\<close>

definition countdownTick :: "handle \<Rightarrow> addr \<Rightarrow> roomCode \<Rightarrow> rat \<Rightarrow> int \<Rightarrow> server \<Rightarrow> server \<times> emit list" where
  "countdownTick h a c k now s =
     (let k' = k - 1;
          s1 = s\<lparr>timers := map (\<lambda>e. if fst e = h
                                     then (h, of_int now + 1000, Countdown a c k') else e)
                              (timers s)\<rparr>;
          s2 = (if k' \<le> 0
                then (case heap s1 a of
                        None \<Rightarrow> s1
                      | Some r \<Rightarrow> clearTimer (countdownInterval r) s1)
                else s1)
      in (s2, [(ToRoom c, TimeLeft k')]))"

definition deadlineElapsed :: "handle \<Rightarrow> addr \<Rightarrow> roomCode \<Rightarrow> string question \<Rightarrow> int \<Rightarrow> server
    \<Rightarrow> server \<times> emit list" where
  "deadlineElapsed h a c q now s =
     (let s1 = clearTimer (Some h) s;
          s2 = (case heap s1 a of
                  None \<Rightarrow> s1
                | Some r \<Rightarrow> clearTimer (countdownInterval r) s1);
          (h', s3) = setTimer (of_int now + 2500) (Reveal c) s2
      in (s3, [(ToRoom c, AllAnswered (if correct q = [] then ''N/A'' else correct q))]))"

definition runTask :: "handle \<Rightarrow> task \<Rightarrow> int \<Rightarrow> server \<Rightarrow> server \<times> emit list" where
  "runTask h t now s =
     (case t of
        Countdown a c k \<Rightarrow> countdownTick h a c k now s
      | Deadline a c q \<Rightarrow> deadlineElapsed h a c q now s
      | Reveal c \<Rightarrow> endCurrentQuestion c now (clearTimer (Some h) s)
      | Advance c \<Rightarrow> startNextQuestion c now (clearTimer (Some h) s)
      | Final c ps \<Rightarrow> (clearTimer (Some h) s, []))"

definition fire :: "handle \<Rightarrow> int \<Rightarrow> server \<Rightarrow> fault + server \<times> emit list" where
  "fire h now s =
     (case map_of (timers s) h of
        None \<Rightarrow> Inl NoSuchTimer
      | Some (due, t) \<Rightarrow> if of_int now < due then Inl NotYetDue else Inr (runTask h t now s))"

text \<open>
  The events that reach the process: a socket connects, a connected socket sends one of
  the client events or disconnects, a pending timer runs.
\<close>

datatype event =
    Connect sid
  | CreateRoom sid roomCode "int option"
  | JoinRoom sid string roomCode
  | SendQuestions sid roomCode "string option question list"
  | StartQuiz sid roomCode
  | Answer sid string roomCode
  | KickPlayer sid roomCode sid
  | EndQuiz sid roomCode
  | Disconnect sid
  | Fire handle

definition from_socket :: "sid \<Rightarrow> server \<Rightarrow> server \<times> emit list \<Rightarrow> fault + server \<times> emit list" where
  "from_socket x s res = (if x \<in> sockets s then Inr res else Inl NotConnected)"

definition step :: "int \<Rightarrow> event \<Rightarrow> server \<Rightarrow> fault + server \<times> emit list" where
  "step now e s =
     (case e of
        Connect x \<Rightarrow> Inr (s\<lparr>sockets := insert x (sockets s)\<rparr>, [])
      | CreateRoom x c mp \<Rightarrow> from_socket x s (create_room x c mp s)
      | JoinRoom x nm c \<Rightarrow> from_socket x s (join_room x nm c s)
      | SendQuestions x c qs \<Rightarrow> from_socket x s (send_multiple_questions c qs s)
      | StartQuiz x c \<Rightarrow> from_socket x s (start_quiz c now s)
      | Answer x opt c \<Rightarrow> (if x \<in> sockets s then answer x opt c now s else Inl NotConnected)
      | KickPlayer x c playerId \<Rightarrow> from_socket x s (kick_player c playerId s)
      | EndQuiz x c \<Rightarrow> from_socket x s (end_quiz c s)
      | Disconnect x \<Rightarrow> from_socket x s (disconnect x s)
      | Fire h \<Rightarrow> fire h now s)"

fun run :: "(int \<times> event) list \<Rightarrow> server \<Rightarrow> fault + server \<times> emit list" where
  "run [] s = Inr (s, [])"
| "run (te # es) s =
     (case step (fst te) (snd te) s of
        Inl f \<Rightarrow> Inl f
      | Inr r1 \<Rightarrow>
          (case run es (fst r1) of
             Inl f \<Rightarrow> Inl f
           | Inr r2 \<Rightarrow> Inr (fst r2, snd r1 @ snd r2)))"

section \<open>server.js, second listing: the host-paced flow\<close>







text \<open>
  The \<^verbatim>\<open>answer\<close> handler of the second listing. Its \<^verbatim>\<open>create-room\<close> sets
  \<^verbatim>\<open>questionStartTime\<close> to \<^verbatim>\<open>null\<close>, and \<^verbatim>\<open>now - null\<close> is \<^verbatim>\<open>now\<close>: a missing
  start time counts as 0 here. The lock by answers also broadcasts
  \<^verbatim>\<open>question-locked\<close>.
\<close>

definition scoreCorrect_hp :: "sid \<Rightarrow> int \<Rightarrow> string question \<Rightarrow> room \<Rightarrow> fault + room" where
  "scoreCorrect_hp x now q r =
     (if \<not> firstCorrectAnswered r then
        Inr (r\<lparr>players := addScore x 1000 (players r), firstCorrectAnswered := True\<rparr>)
      else
        (case laterScore (Some (case questionStartTime r of None \<Rightarrow> 0 | Some t \<Rightarrow> t)) now
                (timeLimit q) of
           Inl e \<Rightarrow> Inl e
         | Inr n \<Rightarrow> Inr (r\<lparr>players := addScore x n (players r)\<rparr>)))"

definition lockByAnswers_hp :: "addr \<Rightarrow> roomCode \<Rightarrow> int \<Rightarrow> string question \<Rightarrow> room \<Rightarrow> server
    \<Rightarrow> server \<times> emit list" where
  "lockByAnswers_hp a c now q r s =
     (if length (answeredPlayers r) = length (players r) then
        (let s1 = clearTimer (countdownInterval r) (clearTimer (timer r) s);
             (h, s2) = setTimer (of_int now + 2500) (Reveal c) s1
         in (s2, [(ToRoom c, QuestionLocked), (ToRoom c, AllAnswered (correct q))]))
      else (s, []))"

definition answer_hp :: "sid \<Rightarrow> string \<Rightarrow> roomCode \<Rightarrow> int \<Rightarrow> server
    \<Rightarrow> fault + server \<times> emit list" where
  "answer_hp x opt c now s =
     (case room_at s c of
        None \<Rightarrow> Inr (s, [])
      | Some (a, r) \<Rightarrow>
          (case (find (\<lambda>p. pid p = x) (players r), nth_opt (questions r) (currentIndex r)) of
             (Some p, Some q) \<Rightarrow>
               if x \<in> set (answeredPlayers r) then Inr (s, [])
               else
                 (let r1 = r\<lparr>answeredPlayers := answeredPlayers r @ [x]\<rparr> in
                  case (if isCorrect opt q then scoreCorrect_hp x now q r1 else Inr r1) of
                    Inl e \<Rightarrow> Inl e
                  | Inr r2 \<Rightarrow> Inr (lockByAnswers_hp a c now q r2 (put a r2 s)))
           | _ \<Rightarrow> Inr (s, [])))"





section \<open>The listing of part 001\<close>

text \<open>
  This listing has no host and no player limit; a player carries an emoji; the questions
  are stored as received, so \<^verbatim>\<open>correct\<close> may be absent. Its timer callbacks are recorded
  but not run here, so the registry holds the room objects directly.
\<close>

record player_p1 =
  pid_p1 :: sid
  name_p1 :: string
  emoji_p1 :: "string option"
  score_p1 :: int

record room_p1 =
  players_p1 :: "player_p1 list"
  questions_p1 :: "string option question list"
  currentIndex_p1 :: nat
  answeredPlayers_p1 :: "sid list"
  timer_p1 :: "handle option"
  countdownInterval_p1 :: "handle option"
  quizStarted_p1 :: bool
  questionStartTime_p1 :: "int option"
  firstCorrectAnswered_p1 :: bool

datatype task_p1 = Countdown_p1 roomCode rat | Deadline_p1 roomCode | Advance_p1 roomCode

datatype message_p1 =
    RoomCreated_p1 roomCode
  | RoomError_p1 string
  | LobbyUpdate_p1 "player_p1 list"
  | Question_p1 "string option question"
  | AnswerResult_p1 int
  | QuestionEnded_p1
  | Leaderboard_p1 "player_p1 list"
  | FinalLeaderboard_p1 "player_p1 list"
  | QuizEnd_p1

type_synonym emit_p1 = "target \<times> message_p1"

record server_p1 =
  rooms_p1 :: "(roomCode \<times> room_p1) list"
  timers_p1 :: "(handle \<times> rat \<times> task_p1) list"
  nextHandle_p1 :: handle

definition put_p1 :: "roomCode \<Rightarrow> room_p1 \<Rightarrow> server_p1 \<Rightarrow> server_p1" where
  "put_p1 c r s = s\<lparr>rooms_p1 := map (\<lambda>cr. if fst cr = c then (c, r) else cr) (rooms_p1 s)\<rparr>"

definition setTimer_p1 :: "rat \<Rightarrow> task_p1 \<Rightarrow> server_p1 \<Rightarrow> handle \<times> server_p1" where
  "setTimer_p1 due t s =
     (nextHandle_p1 s,
      s\<lparr>timers_p1 := timers_p1 s @ [(nextHandle_p1 s, due, t)],
        nextHandle_p1 := Suc (nextHandle_p1 s)\<rparr>)"

definition clearTimer_p1 :: "handle option \<Rightarrow> server_p1 \<Rightarrow> server_p1" where
  "clearTimer_p1 ho s =
     (case ho of
        None \<Rightarrow> s
      | Some h \<Rightarrow> s\<lparr>timers_p1 := filter (\<lambda>e. fst e \<noteq> h) (timers_p1 s)\<rparr>)"

definition ranked_p1 :: "player_p1 list \<Rightarrow> player_p1 list" where
  "ranked_p1 ps = sort_key (\<lambda>p. - score_p1 p) ps"

definition create_room_p1 :: "sid \<Rightarrow> roomCode \<Rightarrow> server_p1 \<Rightarrow> server_p1 \<times> emit_p1 list" where
  "create_room_p1 x c s =
     (let s' =
        (if map_of (rooms_p1 s) c = None then
           s\<lparr>rooms_p1 := rooms_p1 s @ [(c,
               \<lparr>players_p1 = [], questions_p1 = [], currentIndex_p1 = 0,
                answeredPlayers_p1 = [], timer_p1 = None, countdownInterval_p1 = None,
                quizStarted_p1 = False, questionStartTime_p1 = None,
                firstCorrectAnswered_p1 = False\<rparr>)]\<rparr>
         else s)
      in (s', [(ToSocket x, RoomCreated_p1 c)]))"

definition join_room_p1 :: "sid \<Rightarrow> string \<Rightarrow> string option \<Rightarrow> roomCode \<Rightarrow> server_p1
    \<Rightarrow> server_p1 \<times> emit_p1 list" where
  "join_room_p1 x nm em c s =
     (case map_of (rooms_p1 s) c of
        None \<Rightarrow> (s, [(ToSocket x, RoomError_p1 ''Room does not exist.'')])
      | Some r \<Rightarrow>
          (let r' = (if find (\<lambda>p. pid_p1 p = x) (players_p1 r) = None
                     then r\<lparr>players_p1 := players_p1 r @
                            [\<lparr>pid_p1 = x, name_p1 = nm, emoji_p1 = em, score_p1 = 0\<rparr>]\<rparr>
                     else r)
           in (put_p1 c r' s, [(ToRoom c, LobbyUpdate_p1 (players_p1 r'))])))"

definition send_multiple_questions_p1 ::
    "roomCode \<Rightarrow> string option question list \<Rightarrow> server_p1 \<Rightarrow> server_p1 \<times> emit_p1 list" where
  "send_multiple_questions_p1 c qs s =
     (case map_of (rooms_p1 s) c of
        None \<Rightarrow> (s, [])
      | Some r \<Rightarrow> (put_p1 c (r\<lparr>questions_p1 := qs, currentIndex_p1 := 0\<rparr>) s, []))"

definition startNextQuestion_p1 :: "roomCode \<Rightarrow> int \<Rightarrow> server_p1 \<Rightarrow> server_p1 \<times> emit_p1 list" where
  "startNextQuestion_p1 c now s =
     (case map_of (rooms_p1 s) c of
        None \<Rightarrow> (s, [])
      | Some r \<Rightarrow>
          if length (questions_p1 r) \<le> currentIndex_p1 r then
            (s, [(ToRoom c, FinalLeaderboard_p1 (take 5 (ranked_p1 (players_p1 r)))),
                 (ToRoom c, QuizEnd_p1)])
          else
            (let q = questions_p1 r ! currentIndex_p1 r;
                 timeLeft = countdownStart q;
                 (h1, s1) = setTimer_p1 (of_int now + 1000) (Countdown_p1 c timeLeft) s;
                 (h2, s2) = setTimer_p1 (of_int now + timeLeft * 1000) (Deadline_p1 c) s1
             in (put_p1 c (r\<lparr>answeredPlayers_p1 := [], firstCorrectAnswered_p1 := False,
                             questionStartTime_p1 := Some now,
                             countdownInterval_p1 := Some h1, timer_p1 := Some h2\<rparr>) s2,
                 [(ToRoom c, Question_p1 q)])))"

definition start_quiz_p1 :: "roomCode \<Rightarrow> int \<Rightarrow> server_p1 \<Rightarrow> server_p1 \<times> emit_p1 list" where
  "start_quiz_p1 c now s =
     (case map_of (rooms_p1 s) c of
        None \<Rightarrow> (s, [])
      | Some r \<Rightarrow> startNextQuestion_p1 c now (put_p1 c (r\<lparr>quizStarted_p1 := True\<rparr>) s))"

definition endCurrentQuestion_p1 :: "roomCode \<Rightarrow> int \<Rightarrow> server_p1 \<Rightarrow> server_p1 \<times> emit_p1 list" where
  "endCurrentQuestion_p1 c now s =
     (case map_of (rooms_p1 s) c of
        None \<Rightarrow> (s, [])
      | Some r \<Rightarrow>
          (let s1 = put_p1 c (r\<lparr>currentIndex_p1 := Suc (currentIndex_p1 r)\<rparr>) s;
               (h, s2) = setTimer_p1 (of_int now + 5000) (Advance_p1 c) s1
           in (s2, [(ToRoom c, QuestionEnded_p1),
                    (ToRoom c, Leaderboard_p1 (ranked_p1 (players_p1 r)))])))"

fun addScore_p1 :: "sid \<Rightarrow> int \<Rightarrow> player_p1 list \<Rightarrow> player_p1 list" where
  "addScore_p1 x n [] = []"
| "addScore_p1 x n (p # ps) =
     (if pid_p1 p = x then p\<lparr>score_p1 := score_p1 p + n\<rparr> # ps else p # addScore_p1 x n ps)"

text \<open>
  \<^verbatim>\<open>Math.max(100, Math.floor(timeLeft * 10))\<close>; with a missing start time or time limit
  \<^verbatim>\<open>timeLeft\<close> is \<^verbatim>\<open>NaN\<close> and so is the maximum.
\<close>

definition laterScore_p1 :: "int option \<Rightarrow> int \<Rightarrow> rat option \<Rightarrow> fault + int" where
  "laterScore_p1 start now limit =
     (case (start, limit) of
        (Some t0, Some l) \<Rightarrow>
          (let timeTaken = of_int (now - t0) / 1000;
               timeLeft = l - timeTaken
           in Inr (max 100 \<lfloor>timeLeft * 10\<rfloor>))
      | _ \<Rightarrow> Inl NonFiniteScore)"

text \<open>
  The value of the local \<^verbatim>\<open>score\<close> after the \<^verbatim>\<open>if (isCorrect)\<close>, with the room as the
  block leaves it.
\<close>

definition scoreAnswer_p1 :: "sid \<Rightarrow> bool \<Rightarrow> int \<Rightarrow> string option question \<Rightarrow> room_p1
    \<Rightarrow> fault + int \<times> room_p1" where
  "scoreAnswer_p1 x isCorr now q r =
     (if \<not> isCorr then Inr (0, r)
      else if \<not> firstCorrectAnswered_p1 r then
        Inr (1000, r\<lparr>players_p1 := addScore_p1 x 1000 (players_p1 r),
                       firstCorrectAnswered_p1 := True\<rparr>)
      else
        (case laterScore_p1 (questionStartTime_p1 r) now (timeLimit q) of
           Inl e \<Rightarrow> Inl e
         | Inr n \<Rightarrow> Inr (n, r\<lparr>players_p1 := addScore_p1 x n (players_p1 r)\<rparr>)))"

text \<open>
  \<^verbatim>\<open>question.correct.trim()\<close> throws a \<^verbatim>\<open>TypeError\<close> when the question has no
  \<^verbatim>\<open>correct\<close>. When everybody has answered the handler ends the question at once.
\<close>

definition answer_p1 :: "sid \<Rightarrow> string \<Rightarrow> roomCode \<Rightarrow> int \<Rightarrow> server_p1
    \<Rightarrow> fault + server_p1 \<times> emit_p1 list" where
  "answer_p1 x opt c now s =
     (case map_of (rooms_p1 s) c of
        None \<Rightarrow> Inr (s, [])
      | Some r \<Rightarrow>
          (case (find (\<lambda>p. pid_p1 p = x) (players_p1 r),
                 nth_opt (questions_p1 r) (currentIndex_p1 r)) of
             (Some p, Some q) \<Rightarrow>
               if x \<in> set (answeredPlayers_p1 r) then Inr (s, [])
               else
                 (case correct q of
                    None \<Rightarrow> Inl TypeError
                  | Some cr \<Rightarrow>
                      (let r1 = r\<lparr>answeredPlayers_p1 := answeredPlayers_p1 r @ [x]\<rparr>;
                           isCorr = (toLowerCase (trim opt) = toLowerCase (trim cr))
                       in case scoreAnswer_p1 x isCorr now q r1 of
                            Inl e \<Rightarrow> Inl e
                          | Inr (n, r2) \<Rightarrow>
                              (let s2 = put_p1 c r2 s;
                                   out = [(ToSocket x, AnswerResult_p1 n)]
                               in if length (answeredPlayers_p1 r2) = length (players_p1 r2)
                                  then
                                    (let s3 = clearTimer_p1 (countdownInterval_p1 r2)
                                                (clearTimer_p1 (timer_p1 r2) s2)
                                     in Inr (fst (endCurrentQuestion_p1 c now s3),
                                             out @ snd (endCurrentQuestion_p1 c now s3)))
                                  else Inr (s2, out))))
           | _ \<Rightarrow> Inr (s, [])))"

definition disconnect_p1 :: "sid \<Rightarrow> server_p1 \<Rightarrow> server_p1 \<times> emit_p1 list" where
  "disconnect_p1 x s =
     (let upd = (\<lambda>r. r\<lparr>players_p1 := filter (\<lambda>p. pid_p1 p \<noteq> x) (players_p1 r),
                        answeredPlayers_p1 := removeAll x (answeredPlayers_p1 r)\<rparr>)
      in (s\<lparr>rooms_p1 := map (\<lambda>cr. (fst cr, upd (snd cr))) (rooms_p1 s)\<rparr>,
          map (\<lambda>cr. (ToRoom (fst cr), LobbyUpdate_p1 (players_p1 (upd (snd cr))))) (rooms_p1 s)))"

definition end_quiz_p1 :: "roomCode \<Rightarrow> server_p1 \<Rightarrow> server_p1 \<times> emit_p1 list" where
  "end_quiz_p1 c s =
     (case map_of (rooms_p1 s) c of
        None \<Rightarrow> (s, [])
      | Some r \<Rightarrow>
          ((clearTimer_p1 (countdownInterval_p1 r) (clearTimer_p1 (timer_p1 r) s))
             \<lparr>rooms_p1 := filter (\<lambda>cr. fst cr \<noteq> c) (rooms_p1 s)\<rparr>,
           [(ToRoom c, FinalLeaderboard_p1 (take 5 (ranked_p1 (players_p1 r)))),
            (ToRoom c, QuizEnd_p1)]))"

text \<open>The client events of this listing, in the order they arrive.\<close>

datatype event_p1 =
    CreateRoom_p1 sid roomCode
  | JoinRoom_p1 sid string "string option" roomCode
  | SendQuestions_p1 sid roomCode "string option question list"
  | StartQuiz_p1 sid roomCode
  | Answer_p1 sid string roomCode
  | EndQuiz_p1 sid roomCode
  | Disconnect_p1 sid

definition step_p1 :: "int \<Rightarrow> event_p1 \<Rightarrow> server_p1 \<Rightarrow> fault + server_p1 \<times> emit_p1 list" where
  "step_p1 now e s =
     (case e of
        CreateRoom_p1 x c \<Rightarrow> Inr (create_room_p1 x c s)
      | JoinRoom_p1 x nm em c \<Rightarrow> Inr (join_room_p1 x nm em c s)
      | SendQuestions_p1 x c qs \<Rightarrow> Inr (send_multiple_questions_p1 c qs s)
      | StartQuiz_p1 x c \<Rightarrow> Inr (start_quiz_p1 c now s)
      | Answer_p1 x opt c \<Rightarrow> answer_p1 x opt c now s
      | EndQuiz_p1 x c \<Rightarrow> Inr (end_quiz_p1 c s)
      | Disconnect_p1 x \<Rightarrow> Inr (disconnect_p1 x s))"

fun run_p1 :: "(int \<times> event_p1) list \<Rightarrow> server_p1 \<Rightarrow> fault + server_p1 \<times> emit_p1 list" where
  "run_p1 [] s = Inr (s, [])"
| "run_p1 (te # es) s =
     (case step_p1 (fst te) (snd te) s of
        Inl f \<Rightarrow> Inl f
      | Inr r1 \<Rightarrow>
          (case run_p1 es (fst r1) of
             Inl f \<Rightarrow> Inl f
           | Inr r2 \<Rightarrow> Inr (fst r2, snd r1 @ snd r2)))"

definition init_p1 :: server_p1 where
  "init_p1 = \<lparr>rooms_p1 = [], timers_p1 = [], nextHandle_p1 = 0\<rparr>"

section \<open>Observations and scenarios\<close>

text \<open>What a run leaves behind: the room registered under a code, and the messages.\<close>

definition final_room :: "roomCode \<Rightarrow> fault + server \<times> emit list \<Rightarrow> room option" where
  "final_room c res =
     (case res of Inl f \<Rightarrow> None | Inr so \<Rightarrow> map_option snd (room_at (fst so) c))"

definition emitted :: "fault + 's \<times> 'e list \<Rightarrow> 'e list" where
  "emitted res = (case res of Inl f \<Rightarrow> [] | Inr so \<Rightarrow> snd so)"

definition pending :: "fault + server \<times> emit list \<Rightarrow> handle list" where
  "pending res = (case res of Inl f \<Rightarrow> [] | Inr so \<Rightarrow> map fst (timers (fst so)))"

definition scores_in :: "roomCode \<Rightarrow> fault + server \<times> emit list \<Rightarrow> int list" where
  "scores_in c res = (case final_room c res of None \<Rightarrow> [] | Some r \<Rightarrow> map score (players r))"

definition ids_in :: "roomCode \<Rightarrow> fault + server \<times> emit list \<Rightarrow> sid list" where
  "ids_in c res = (case final_room c res of None \<Rightarrow> [] | Some r \<Rightarrow> map pid (players r))"

definition answered_in :: "roomCode \<Rightarrow> fault + server \<times> emit list \<Rightarrow> sid list" where
  "answered_in c res = (case final_room c res of None \<Rightarrow> [] | Some r \<Rightarrow> answeredPlayers r)"

definition index_in :: "roomCode \<Rightarrow> fault + server \<times> emit list \<Rightarrow> nat option" where
  "index_in c res = map_option currentIndex (final_room c res)"

definition final_room_p1 :: "roomCode \<Rightarrow> fault + server_p1 \<times> emit_p1 list \<Rightarrow> room_p1 option" where
  "final_room_p1 c res =
     (case res of Inl f \<Rightarrow> None | Inr so \<Rightarrow> map_of (rooms_p1 (fst so)) c)"


definition names_in_p1 :: "roomCode \<Rightarrow> fault + server_p1 \<times> emit_p1 list \<Rightarrow> string list" where
  "names_in_p1 c res =
     (case final_room_p1 c res of None \<Rightarrow> [] | Some r \<Rightarrow> map name_p1 (players_p1 r))"




text \<open>A question whose correct option is \<open>a\<close>, with a time limit in seconds.\<close>

definition quizQ :: "rat \<Rightarrow> string option question" where
  "quizQ l = \<lparr>qtext = ''Q'', options = [''a'', ''b''], correct = Some ''a'', timeLimit = Some l\<rparr>"

text \<open>Host \<open>h\<close> creates room \<open>R\<close>; Ann, Bo and Cy join from sockets \<open>A\<close>, \<open>B\<close>, \<open>C\<close>.\<close>

definition lobby2 :: "(int \<times> event) list" where
  "lobby2 =
     [(0, Connect ''h''), (0, Connect ''A''), (0, Connect ''B''),
      (1, CreateRoom ''h'' ''R'' None),
      (2, JoinRoom ''A'' ''Ann'' ''R''), (3, JoinRoom ''B'' ''Bo'' ''R'')]"

definition lobby3 :: "(int \<times> event) list" where
  "lobby3 = lobby2 @ [(4, Connect ''C''), (5, JoinRoom ''C'' ''Cy'' ''R'')]"

text \<open>The state a run from the initial state ends in.\<close>

definition state_after :: "(int \<times> event) list \<Rightarrow> server" where
  "state_after es = (case run es init of Inl f \<Rightarrow> init | Inr so \<Rightarrow> fst so)"

text \<open>Two players, three questions of five seconds each, the quiz started at 1000 ms.\<close>

definition quiz2 :: "(int \<times> event) list" where
  "quiz2 = lobby2 @ [(6, SendQuestions ''h'' ''R'' [quizQ 5, quizQ 5, quizQ 5]),
                     (1000, StartQuiz ''h'' ''R'')]"

text \<open>
  A question sent without a correct option, and a run in which Ann answers it with
  \<open>n/a\<close> after a leading blank.
\<close>

definition unkeyedQ :: "string option question" where
  "unkeyedQ = \<lparr>qtext = ''Q'', options = [''a'', ''b''], correct = None, timeLimit = Some 10\<rparr>"

definition sentinelRun :: "(int \<times> event) list" where
  "sentinelRun =
     lobby2 @ [(6, SendQuestions ''h'' ''R'' [unkeyedQ]), (1000, StartQuiz ''h'' ''R''),
               (1500, Answer ''A'' '' n/a'' ''R'')]"

text \<open>The state a run of the listing \<^verbatim>\<open>part_001\<close> ends in.\<close>

definition state_after_p1 :: "(int \<times> event_p1) list \<Rightarrow> server_p1" where
  "state_after_p1 es = (case run_p1 es init_p1 of Inl f \<Rightarrow> init_p1 | Inr so \<Rightarrow> fst so)"



text \<open>
  Ann has answered the first question, Bo has not, and a third socket has connected.
\<close>

definition midQuestion :: "(int \<times> event) list" where
  "midQuestion = quiz2 @ [(1200, Answer ''A'' ''a'' ''R''), (1300, Connect ''C'')]"

text \<open>A room for two players with both places taken, and a third socket connected.\<close>

definition lobbyMax2 :: "(int \<times> event) list" where
  "lobbyMax2 =
     [(0, Connect ''h''), (0, Connect ''A''), (0, Connect ''B''), (0, Connect ''C''),
      (1, CreateRoom ''h'' ''R'' (Some 2)),
      (2, JoinRoom ''A'' ''Ann'' ''R''), (3, JoinRoom ''B'' ''Bo'' ''R'')]"

text \<open>In the listing \<^verbatim>\<open>part_001\<close> a second socket joins under Ann's name.\<close>

definition dupJoin_p1 :: "(int \<times> event_p1) list" where
  "dupJoin_p1 =
     [(1, CreateRoom_p1 ''h'' ''R''), (2, JoinRoom_p1 ''A'' ''Ann'' None ''R''),
      (3, JoinRoom_p1 ''B'' '' ann'' None ''R'')]"

text \<open>
  The countdown of the first question ticks five times (timer 0), its deadline runs (timer
  1, at 6000 ms), then Bo answers during the reveal pause, then the two pending reveal
  timers run.
\<close>

definition doubleLock :: "(int \<times> event) list" where
  "doubleLock =
     quiz2 @ [(1500, Answer ''A'' ''a'' ''R''),
              (2000, Fire 0), (3000, Fire 0), (4000, Fire 0), (5000, Fire 0), (6000, Fire 0),
              (6000, Fire 1), (7000, Answer ''B'' ''a'' ''R''), (8500, Fire 2), (9500, Fire 3)]"

text \<open>Three players; Ann answers and is then removed by the host.\<close>

definition kickRun :: "(int \<times> event) list" where
  "kickRun = lobby3 @ [(6, SendQuestions ''h'' ''R'' [quizQ 20]), (1000, StartQuiz ''h'' ''R''),
                       (1200, Answer ''A'' ''a'' ''R''), (1400, KickPlayer ''h'' ''R'' ''A'')]"



text \<open>The host leaves half a second into the first question.\<close>

definition hostGone :: "(int \<times> event) list" where
  "hostGone = quiz2 @ [(1500, Disconnect ''h'')]"








text \<open>
  The answered players of a room are players of its roster, and this holds of every room
  object.
\<close>

definition answered_within :: "room \<Rightarrow> bool" where
  "answered_within r = (set (answeredPlayers r) \<subseteq> pid ` set (players r))"

definition all_within :: "server \<Rightarrow> bool" where
  "all_within s = (\<forall>b. case heap s b of None \<Rightarrow> True | Some r \<Rightarrow> answered_within r)"

section \<open>Basic facts\<close>

lemma room_at_put_same: "room_at s c = Some (a, r) \<Longrightarrow> room_at (put a r' s) c = Some (a, r')"
  by (auto simp: room_at_def put_def split: option.splits)

lemma room_at_clearTimer [simp]: "room_at (clearTimer ho s) c = room_at s c"
  by (simp add: room_at_def clearTimer_def split: option.splits)

lemma room_at_setTimer [simp]: "room_at (snd (setTimer d t s)) c = room_at s c"
  by (simp add: room_at_def setTimer_def split: option.splits)

lemma map_of_filter_key: "map_of (filter (\<lambda>ca. fst ca \<noteq> c) xs) c = None"
  by (induction xs) auto

lemma room_at_deleteRoom [simp]: "room_at (deleteRoom c s) c = None"
  by (simp add: room_at_def deleteRoom_def map_of_filter_key)


lemma put_same: "heap s a = Some r \<Longrightarrow> put a r s = s"
  by (simp add: put_def fun_upd_idem)


lemma length_addScore [simp]: "length (addScore x n ps) = length ps"
  by (induction ps) auto

lemma map_pid_addScore [simp]: "map pid (addScore x n ps) = map pid ps"
  by (induction ps) auto

lemma map_name_addScore [simp]: "map name (addScore x n ps) = map name ps"
  by (induction ps) auto


lemma answer_ignored:
  "room_at s c = None \<or> (\<exists>a r. room_at s c = Some (a, r) \<and>
     (find (\<lambda>p. pid p = x) (players r) = None \<or> nth_opt (questions r) (currentIndex r) = None
      \<or> x \<in> set (answeredPlayers r)))
   \<Longrightarrow> answer x opt c now s = Inr (s, [])"
  by (auto simp: answer_def split: option.splits)

lemma answer_accepted:
  assumes "room_at s c = Some (a, r)" and "find (\<lambda>p. pid p = x) (players r) = Some p"
    and "nth_opt (questions r) (currentIndex r) = Some q" and "x \<notin> set (answeredPlayers r)"
  shows "answer x opt c now s =
     (case (if isCorrect opt q
            then scoreCorrect x now q (r\<lparr>answeredPlayers := answeredPlayers r @ [x]\<rparr>)
            else Inr (r\<lparr>answeredPlayers := answeredPlayers r @ [x]\<rparr>)) of
        Inl e \<Rightarrow> Inl e
      | Inr r2 \<Rightarrow> Inr (lockByAnswers a c now q r2 (put a r2 s)))"
  using assms by (simp add: answer_def Let_def)

lemma scoreCorrect_keeps:
  assumes "scoreCorrect x now q r = Inr r2"
  shows "answeredPlayers r2 = answeredPlayers r" and "questions r2 = questions r"
    and "currentIndex r2 = currentIndex r" and "map pid (players r2) = map pid (players r)"
    and "length (players r2) = length (players r)" and "timer r2 = timer r"
    and "countdownInterval r2 = countdownInterval r" and "hostId r2 = hostId r"
    and "maxPlayers r2 = maxPlayers r"
  using assms by (auto simp: scoreCorrect_def split: if_splits sum.splits)

section \<open>Duplicate answers\<close>





section \<open>The default correct option\<close>

lemma lower_trim_NA: "toLowerCase (trim ''N/A'') = ''n/a''"
  by code_simp

text \<open>
  C5, as the code has it. A question that arrives without a correct option is stored with
  the correct option \<open>N/A\<close>, and an answer to it is judged correct exactly when the
  submitted option, trimmed and in lower case, is \<open>n/a\<close>.
\<close>

theorem absent_correct_default:
  assumes "room_at s c = Some (a, r)" and "i < length qs" and "correct (qs ! i) = None"
  shows "\<exists>r'. room_at (fst (send_multiple_questions c qs s)) c = Some (a, r')
           \<and> correct (questions r' ! i) = ''N/A''
           \<and> (\<forall>opt. isCorrect opt (questions r' ! i) = (toLowerCase (trim opt) = ''n/a''))"
proof -
  let ?r' = "r\<lparr>questions := map normalise qs, currentIndex := 0\<rparr>"
  have "room_at (fst (send_multiple_questions c qs s)) c = Some (a, ?r')"
    using assms(1) by (simp add: send_multiple_questions_def room_at_put_same)
  moreover have "correct (questions ?r' ! i) = ''N/A''"
    using assms(2,3) by (simp add: normalise_def)
  ultimately show ?thesis
    by (auto simp: isCorrect_def lower_trim_NA)
qed

theorem absent_correct_default_witness:
  "room_at (state_after lobby2) ''R'' \<noteq> None \<and>
   (\<exists>r'. room_at (fst (send_multiple_questions ''R'' [unkeyedQ] (state_after lobby2))) ''R''
            = Some (fst (the (room_at (state_after lobby2) ''R'')), r')
        \<and> correct (questions r' ! 0) = ''N/A''
        \<and> (\<forall>opt. isCorrect opt (questions r' ! 0) = (toLowerCase (trim opt) = ''n/a'')))"
proof -
  have ne: "room_at (state_after lobby2) ''R'' \<noteq> None" by code_simp
  then obtain a r where ar: "room_at (state_after lobby2) ''R'' = Some (a, r)" by auto
  have "(0::nat) < length [unkeyedQ]" and "correct ([unkeyedQ] ! 0) = None"
    by (simp_all add: unkeyedQ_def)
  from absent_correct_default[OF ar this] ne ar show ?thesis by simp
qed

text \<open>
  The question without a correct option is answered correctly: Ann submits \<open>n/a\<close> and
  is awarded the 1000 points of the first correct answer.
\<close>

theorem sentinel_answered: "scores_in ''R'' (run sentinelRun init) = [1000, 0]"
  by code_simp

section \<open>Scoring an answer\<close>





lemma map_of_put_p1:
  "map_of (rooms_p1 (put_p1 c r s)) c' =
     (if c' = c then map_option (\<lambda>_. r) (map_of (rooms_p1 s) c) else map_of (rooms_p1 s) c')"
proof -
  have "map_of (map (\<lambda>cr. if fst cr = c then (c, r) else cr) xs) c' =
     (if c' = c then map_option (\<lambda>_. r) (map_of xs c) else map_of xs c')"
    for xs :: "(roomCode \<times> room_p1) list"
    by (induction xs) auto
  then show ?thesis by (simp add: put_p1_def)
qed

lemma rooms_clearTimer_p1 [simp]: "rooms_p1 (clearTimer_p1 ho s) = rooms_p1 s"
  by (simp add: clearTimer_p1_def split: option.splits)

lemma rooms_setTimer_p1 [simp]: "rooms_p1 (snd (setTimer_p1 d t s)) = rooms_p1 s"
  by (simp add: setTimer_p1_def)






text \<open>
  The \<^verbatim>\<open>answer\<close> handler of the second listing leaves the same state as that of the
  first whenever the room has a recorded start time; only the messages of the lock
  differ.
\<close>

lemma answer_hp_state:
  assumes "room_at s c = Some (a, r)" and "questionStartTime r \<noteq> None"
  shows "map_sum id fst (answer_hp x opt c now s) = map_sum id fst (answer x opt c now s)"
proof -
  have sc: "scoreCorrect_hp x now q r' = scoreCorrect x now q r'"
    if "questionStartTime r' = questionStartTime r" for q r'
    using that assms(2) by (auto simp: scoreCorrect_hp_def scoreCorrect_def)
  have lk: "fst (lockByAnswers_hp a c now q r' s') = fst (lockByAnswers a c now q r' s')"
    for q r' s'
    by (simp add: lockByAnswers_hp_def lockByAnswers_def Let_def split_def)
  show ?thesis
    using assms(1)
    by (auto simp: answer_hp_def answer_def Let_def sc lk split: option.splits sum.splits)
qed




section \<open>Joining a room\<close>

lemma room_at_put_put: "room_at s c = Some (a, r) \<Longrightarrow> room_at (put a r2 (put a r1 s)) c = Some (a, r2)"
  by (simp add: room_at_put_same)

lemma server_join_cases:
  assumes ar: "room_at s c = Some (a, r)"
  shows "(x = hostId r \<longrightarrow> join_room x nm c s = (s, []))
    \<and> (x \<noteq> hostId r \<longrightarrow>
         (let live = filter (\<lambda>p. pid p \<in> sockets s) (players r) in
          (maxPlayers r \<le> int (length live) \<longrightarrow>
             snd (join_room x nm c s) = [(ToSocket x, RoomFull ''Room is full.'')]
             \<and> room_at (fst (join_room x nm c s)) c = Some (a, r\<lparr>players := live\<rparr>))
        \<and> (int (length live) < maxPlayers r \<and> list_ex (sameName nm) live \<longrightarrow>
             snd (join_room x nm c s) = [(ToSocket x, RoomError ''Name already taken.'')]
             \<and> room_at (fst (join_room x nm c s)) c = Some (a, r\<lparr>players := live\<rparr>))
        \<and> (int (length live) < maxPlayers r \<and> \<not> list_ex (sameName nm) live \<longrightarrow>
             snd (join_room x nm c s)
               = [(ToRoom c, LobbyUpdate (live @ [\<lparr>pid = x, name = nm, score = 0\<rparr>]) (maxPlayers r))]
             \<and> room_at (fst (join_room x nm c s)) c
               = Some (a, r\<lparr>players := live @ [\<lparr>pid = x, name = nm, score = 0\<rparr>]\<rparr>))))"
  using ar by (simp add: join_room_def Let_def room_at_put_same room_at_put_put)

lemma p1_join_cases:
  assumes r: "map_of (rooms_p1 s) c = Some r"
  shows "(find (\<lambda>p. pid_p1 p = x) (players_p1 r) = None \<longrightarrow>
           map_of (rooms_p1 (fst (join_room_p1 x nm em c s))) c
             = Some (r\<lparr>players_p1 := players_p1 r
                        @ [\<lparr>pid_p1 = x, name_p1 = nm, emoji_p1 = em, score_p1 = 0\<rparr>]\<rparr>)
           \<and> snd (join_room_p1 x nm em c s)
             = [(ToRoom c, LobbyUpdate_p1 (players_p1 r
                        @ [\<lparr>pid_p1 = x, name_p1 = nm, emoji_p1 = em, score_p1 = 0\<rparr>]))])
    \<and> (find (\<lambda>p. pid_p1 p = x) (players_p1 r) \<noteq> None \<longrightarrow>
           map_of (rooms_p1 (fst (join_room_p1 x nm em c s))) c = Some r
           \<and> snd (join_room_p1 x nm em c s) = [(ToRoom c, LobbyUpdate_p1 (players_p1 r))])"
  using r by (auto simp: join_room_p1_def Let_def map_of_put_p1)

lemma lockByAnswers_open:
  "length (answeredPlayers r) \<noteq> length (players r) \<Longrightarrow> lockByAnswers a c now q r s = (s, [])"
  by (simp add: lockByAnswers_def)

lemma lockByAnswers_locks:
  "length (answeredPlayers r) = length (players r) \<Longrightarrow>
     snd (lockByAnswers a c now q r s) = [(ToRoom c, AllAnswered (correct q))]"
  by (simp add: lockByAnswers_def Let_def split_def)

lemma find_append_found: "find P xs = Some p \<Longrightarrow> find P (xs @ ys) = Some p"
  by (induction xs) (auto split: if_splits)

lemma answer_step_result:
  assumes "(if isCorrect opt q
          then scoreCorrect x now q (r\<lparr>answeredPlayers := answeredPlayers r @ [x]\<rparr>)
          else Inr (r\<lparr>answeredPlayers := answeredPlayers r @ [x]\<rparr>)) = Inr r2"
  shows "length (answeredPlayers r2) = Suc (length (answeredPlayers r))"
    and "length (players r2) = length (players r)"
  using assms by (auto split: if_splits dest: scoreCorrect_keeps)

text \<open>
  C8, as the code has it. In server.js a join-room event for an existing room is dropped
  without a reply when it comes from the room's host. From any other socket the roster is
  first pruned to the connected players; if the pruned roster has \<open>maxPlayers\<close>
  players or more the socket gets \<open>room-full\<close>, else if a player of the pruned roster has
  the same lower-cased, trimmed name it gets \<open>room-error\<close>, and in both cases the roster
  is the pruned roster; otherwise the new player is appended with score 0 and the roster
  and \<open>maxPlayers\<close> are broadcast. The listing \<^verbatim>\<open>part_001\<close> has no limit and no name check: a
  socket that is not in the roster is appended, and the roster is broadcast either way.
\<close>

theorem join_room_cases:
  "(room_at s c = Some (a, r) \<longrightarrow>
      (x = hostId r \<longrightarrow> join_room x nm c s = (s, []))
    \<and> (x \<noteq> hostId r \<longrightarrow>
         (let live = filter (\<lambda>p. pid p \<in> sockets s) (players r) in
          (maxPlayers r \<le> int (length live) \<longrightarrow>
             snd (join_room x nm c s) = [(ToSocket x, RoomFull ''Room is full.'')]
             \<and> room_at (fst (join_room x nm c s)) c = Some (a, r\<lparr>players := live\<rparr>))
        \<and> (int (length live) < maxPlayers r \<and> list_ex (sameName nm) live \<longrightarrow>
             snd (join_room x nm c s) = [(ToSocket x, RoomError ''Name already taken.'')]
             \<and> room_at (fst (join_room x nm c s)) c = Some (a, r\<lparr>players := live\<rparr>))
        \<and> (int (length live) < maxPlayers r \<and> \<not> list_ex (sameName nm) live \<longrightarrow>
             snd (join_room x nm c s)
               = [(ToRoom c, LobbyUpdate (live @ [\<lparr>pid = x, name = nm, score = 0\<rparr>]) (maxPlayers r))]
             \<and> room_at (fst (join_room x nm c s)) c
               = Some (a, r\<lparr>players := live @ [\<lparr>pid = x, name = nm, score = 0\<rparr>]\<rparr>)))))
   \<and> (map_of (rooms_p1 s1) c = Some r1 \<longrightarrow>
      (find (\<lambda>p. pid_p1 p = x) (players_p1 r1) = None \<longrightarrow>
           map_of (rooms_p1 (fst (join_room_p1 x nm em c s1))) c
             = Some (r1\<lparr>players_p1 := players_p1 r1
                        @ [\<lparr>pid_p1 = x, name_p1 = nm, emoji_p1 = em, score_p1 = 0\<rparr>]\<rparr>)
           \<and> snd (join_room_p1 x nm em c s1)
             = [(ToRoom c, LobbyUpdate_p1 (players_p1 r1
                        @ [\<lparr>pid_p1 = x, name_p1 = nm, emoji_p1 = em, score_p1 = 0\<rparr>]))])
    \<and> (find (\<lambda>p. pid_p1 p = x) (players_p1 r1) \<noteq> None \<longrightarrow>
           map_of (rooms_p1 (fst (join_room_p1 x nm em c s1))) c = Some r1
           \<and> snd (join_room_p1 x nm em c s1) = [(ToRoom c, LobbyUpdate_p1 (players_p1 r1))]))"
  using server_join_cases[of s c a r x nm] p1_join_cases[of s1 c r1 x nm em]
  by blast

text \<open>
  The listing \<^verbatim>\<open>part_001\<close> accepts a second player under a name that is already taken, and in
  server.js the host's own join-room event for a full room gets no reply at all.
\<close>

theorem join_unchecked:
  "names_in_p1 ''R'' (run_p1 dupJoin_p1 init_p1) = [''Ann'', '' ann'']
   \<and> join_room ''h'' ''Hal'' ''R'' (state_after lobbyMax2) = (state_after lobbyMax2, [])"
proof -
  have "names_in_p1 ''R'' (run_p1 dupJoin_p1 init_p1) = [''Ann'', '' ann'']" by code_simp
  moreover have "snd (join_room ''h'' ''Hal'' ''R'' (state_after lobbyMax2)) = []" by code_simp
  moreover have "room_at (state_after lobbyMax2) ''R'' \<noteq> None" by code_simp
  then obtain a r where h1: "room_at (state_after lobbyMax2) ''R'' = Some (a, r)" by auto
  then have r: "r = snd (the (room_at (state_after lobbyMax2) ''R''))" by simp
  have "hostId r = ''h''" unfolding r by code_simp
  with h1 have "join_room ''h'' ''Hal'' ''R'' (state_after lobbyMax2) = (state_after lobbyMax2, [])"
    by (simp add: join_room_def)
  ultimately show ?thesis by simp
qed

theorem join_room_cases_witness:
  "snd (join_room ''C'' ''Cy'' ''R'' (state_after lobbyMax2))
     = [(ToSocket ''C'', RoomFull ''Room is full.'')]
   \<and> ids_in ''R'' (Inr (join_room ''C'' ''Cy'' ''R'' (state_after lobbyMax2))) = [''A'', ''B'']
   \<and> snd (join_room ''C'' '' ANN'' ''R'' (state_after midQuestion))
     = [(ToSocket ''C'', RoomError ''Name already taken.'')]
   \<and> ids_in ''R'' (Inr (join_room ''C'' '' ANN'' ''R'' (state_after midQuestion))) = [''A'', ''B'']
   \<and> ids_in ''R'' (Inr (join_room ''C'' ''Cy'' ''R'' (state_after midQuestion)))
     = [''A'', ''B'', ''C'']
   \<and> names_in_p1 ''R'' (Inr (join_room_p1 ''B'' '' ann'' None ''R''
         (state_after_p1 (take 2 dupJoin_p1)))) = [''Ann'', '' ann'']"
proof -
  let ?f = "state_after lobbyMax2"
  have "room_at ?f ''R'' \<noteq> None" by code_simp
  then obtain a r where f1: "room_at ?f ''R'' = Some (a, r)" by auto
  then have r: "r = snd (the (room_at ?f ''R''))" by simp
  have f2: "''C'' \<noteq> hostId r" unfolding r by code_simp
  have f3: "filter (\<lambda>p. pid p \<in> sockets ?f) (players r) = players r" unfolding r by code_simp
  have f4: "maxPlayers r \<le> int (length (players r))" unfolding r by code_simp
  have f5: "map pid (players r) = [''A'', ''B'']" unfolding r by code_simp
  note tf = mp[OF conjunct2[OF mp[OF conjunct1[OF join_room_cases[of ?f "''R''" a r "''C''" "''Cy''"]] f1]] f2]
  have F: "snd (join_room ''C'' ''Cy'' ''R'' ?f) = [(ToSocket ''C'', RoomFull ''Room is full.'')]
     \<and> ids_in ''R'' (Inr (join_room ''C'' ''Cy'' ''R'' ?f)) = [''A'', ''B'']"
    using tf f4 f5 by (simp add: Let_def f3 ids_in_def final_room_def)
  let ?m = "state_after midQuestion"
  have "room_at ?m ''R'' \<noteq> None" by code_simp
  then obtain a' r' where m1: "room_at ?m ''R'' = Some (a', r')" by auto
  then have r': "r' = snd (the (room_at ?m ''R''))" by simp
  have m2: "''C'' \<noteq> hostId r'" unfolding r' by code_simp
  have m3: "filter (\<lambda>p. pid p \<in> sockets ?m) (players r') = players r'" unfolding r' by code_simp
  have m4: "int (length (players r')) < maxPlayers r'" unfolding r' by code_simp
  have m5: "map pid (players r') = [''A'', ''B'']" unfolding r' by code_simp
  have m6: "list_ex (sameName '' ANN'') (players r')" unfolding r' by code_simp
  have m7: "\<not> list_ex (sameName ''Cy'') (players r')" unfolding r' by code_simp
  note td = mp[OF conjunct2[OF mp[OF conjunct1[OF join_room_cases[of ?m "''R''" a' r' "''C''" "'' ANN''"]] m1]] m2]
  have D: "snd (join_room ''C'' '' ANN'' ''R'' ?m) = [(ToSocket ''C'', RoomError ''Name already taken.'')]
     \<and> ids_in ''R'' (Inr (join_room ''C'' '' ANN'' ''R'' ?m)) = [''A'', ''B'']"
    using td m4 m5 m6 by (simp add: Let_def m3 ids_in_def final_room_def)
  note ta = mp[OF conjunct2[OF mp[OF conjunct1[OF join_room_cases[of ?m "''R''" a' r' "''C''" "''Cy''"]] m1]] m2]
  have A: "ids_in ''R'' (Inr (join_room ''C'' ''Cy'' ''R'' ?m)) = [''A'', ''B'', ''C'']"
    using ta m4 m5 m7 by (simp add: Let_def m3 ids_in_def final_room_def)
  let ?e = "state_after_p1 (take 2 dupJoin_p1)"
  have "map_of (rooms_p1 ?e) ''R'' \<noteq> None" by code_simp
  then obtain r1 where e1: "map_of (rooms_p1 ?e) ''R'' = Some r1" by auto
  then have r1: "r1 = the (map_of (rooms_p1 ?e) ''R'')" by simp
  have e2: "find (\<lambda>p. pid_p1 p = ''B'') (players_p1 r1) = None" unfolding r1 by code_simp
  have e3: "map name_p1 (players_p1 r1) = [''Ann'']" unfolding r1 by code_simp
  note te = mp[OF conjunct1[OF mp[OF conjunct2[OF join_room_cases[of _ "''R''" _ _ "''B''" "'' ann''" ?e r1 None]] e1]] e2]
  have E: "names_in_p1 ''R'' (Inr (join_room_p1 ''B'' '' ann'' None ''R'' ?e)) = [''Ann'', '' ann'']"
    using te e3 by (simp add: names_in_p1_def final_room_p1_def)
  from F D A E show ?thesis by simp
qed

text \<open>
  C10. join-room looks at the host, the connected sockets, the size of the roster and the
  names only, so it is accepted while a question is active. With every player connected,
  a free place and a fresh name, the new player is appended and nothing else in the room
  changes. If all but one player \<open>y\<close> had answered, then without the join the answer
  of \<open>y\<close> broadcasts the reveal, and after the join the same answer broadcasts nothing
  and leaves every timer pending: the newcomer counts in
  \<open>answeredPlayers.size === players.length\<close>.
\<close>

theorem join_mid_question:
  assumes ar: "room_at s c = Some (a, r)" and host: "x \<noteq> hostId r"
    and live: "\<forall>p \<in> set (players r). pid p \<in> sockets s"
    and room: "int (length (players r)) < maxPlayers r"
    and fresh: "\<not> list_ex (sameName nm) (players r)"
  shows "room_at (fst (join_room x nm c s)) c
           = Some (a, r\<lparr>players := players r @ [\<lparr>pid = x, name = nm, score = 0\<rparr>]\<rparr>)
    \<and> (find (\<lambda>p. pid p = y) (players r) = Some p
        \<and> nth_opt (questions r) (currentIndex r) = Some q
        \<and> y \<notin> set (answeredPlayers r)
        \<and> Suc (length (answeredPlayers r)) = length (players r) \<longrightarrow>
        (\<forall>s' out. answer y opt c now s = Inr (s', out) \<longrightarrow>
            out = [(ToRoom c, AllAnswered (correct q))])
        \<and> (\<forall>s' out. answer y opt c now (fst (join_room x nm c s)) = Inr (s', out) \<longrightarrow>
            out = [] \<and> timers s' = timers s)
        \<and> isl (answer y opt c now (fst (join_room x nm c s))) = isl (answer y opt c now s))"
proof (intro conjI impI)
  let ?new = "\<lparr>pid = x, name = nm, score = 0\<rparr>"
  let ?r' = "r\<lparr>players := players r @ [?new]\<rparr>"
  let ?s' = "fst (join_room x nm c s)"
  have flt: "filter (\<lambda>p. pid p \<in> sockets s) (players r) = players r"
    using live by (simp add: filter_id_conv)
  from server_join_cases[OF ar, of x nm] host room fresh
  show joined: "room_at ?s' c = Some (a, ?r')"
    by (simp add: flt Let_def)
  have tm: "timers ?s' = timers s"
    using ar host by (simp add: join_room_def Let_def put_def)
  assume h: "find (\<lambda>p. pid p = y) (players r) = Some p
        \<and> nth_opt (questions r) (currentIndex r) = Some q
        \<and> y \<notin> set (answeredPlayers r)
        \<and> Suc (length (answeredPlayers r)) = length (players r)"
  let ?r1 = "r\<lparr>answeredPlayers := answeredPlayers r @ [y]\<rparr>"
  let ?r1' = "?r'\<lparr>answeredPlayers := answeredPlayers ?r' @ [y]\<rparr>"
  let ?res = "if isCorrect opt q then scoreCorrect y now q ?r1 else Inr ?r1"
  let ?res' = "if isCorrect opt q then scoreCorrect y now q ?r1' else Inr ?r1'"
  have a1: "answer y opt c now s =
     (case ?res of Inl e \<Rightarrow> Inl e | Inr r2 \<Rightarrow> Inr (lockByAnswers a c now q r2 (put a r2 s)))"
    using answer_accepted[OF ar, of y p q opt now] h by simp
  have a2: "answer y opt c now ?s' =
     (case ?res' of Inl e \<Rightarrow> Inl e | Inr r2 \<Rightarrow> Inr (lockByAnswers a c now q r2 (put a r2 ?s')))"
    using answer_accepted[OF joined, of y p q opt now] h by (simp add: find_append_found)
  show "\<forall>s' out. answer y opt c now s = Inr (s', out) \<longrightarrow>
            out = [(ToRoom c, AllAnswered (correct q))]"
  proof (intro allI impI)
    fix s' out assume "answer y opt c now s = Inr (s', out)"
    with a1 obtain r2 where r2: "?res = Inr r2"
      and l: "lockByAnswers a c now q r2 (put a r2 s) = (s', out)"
      by (auto split: sum.splits)
    from answer_step_result[OF r2] h have "length (answeredPlayers r2) = length (players r2)"
      by simp
    from lockByAnswers_locks[OF this, of a c now q "put a r2 s"] l show "out = [(ToRoom c, AllAnswered (correct q))]"
      by simp
  qed
  show "\<forall>s' out. answer y opt c now ?s' = Inr (s', out) \<longrightarrow> out = [] \<and> timers s' = timers s"
  proof (intro allI impI)
    fix s' out assume "answer y opt c now ?s' = Inr (s', out)"
    with a2 obtain r2 where r2: "?res' = Inr r2"
      and l: "lockByAnswers a c now q r2 (put a r2 ?s') = (s', out)"
      by (auto split: sum.splits)
    from answer_step_result[OF r2] h have "length (answeredPlayers r2) \<noteq> length (players r2)"
      by simp
    from lockByAnswers_open[OF this, of a c now q "put a r2 ?s'"] l tm
    show "out = [] \<and> timers s' = timers s"
      by (auto simp: put_def)
  qed
  have "isl ?res' = isl ?res"
    by (auto simp: scoreCorrect_def split: sum.splits)
  then show "isl (answer y opt c now ?s') = isl (answer y opt c now s)"
    unfolding a1 a2 by (auto split: sum.splits)
qed

theorem join_mid_question_witness:
  "emitted (answer ''B'' ''a'' ''R'' 1500 (state_after midQuestion))
     = [(ToRoom ''R'', AllAnswered ''a'')]
   \<and> emitted (answer ''B'' ''a'' ''R'' 1500
                (fst (join_room ''C'' ''Cy'' ''R'' (state_after midQuestion)))) = []
   \<and> \<not> isl (answer ''B'' ''a'' ''R'' 1500 (fst (join_room ''C'' ''Cy'' ''R'' (state_after midQuestion))))
   \<and> ids_in ''R'' (Inr (join_room ''C'' ''Cy'' ''R'' (state_after midQuestion)))
       = [''A'', ''B'', ''C'']"
proof -
  let ?s = "state_after midQuestion"
  let ?p = "\<lparr>pid = ''B'', name = ''Bo'', score = 0\<rparr>"
  let ?q = "normalise (quizQ 5)"
  have "room_at ?s ''R'' \<noteq> None" by code_simp
  then obtain a r where h1: "room_at ?s ''R'' = Some (a, r)" by auto
  then have r: "r = snd (the (room_at ?s ''R''))" by simp
  have h2: "''C'' \<noteq> hostId r" unfolding r by code_simp
  have h3: "\<forall>p \<in> set (players r). pid p \<in> sockets ?s" unfolding r by code_simp
  have h4: "int (length (players r)) < maxPlayers r" unfolding r by code_simp
  have h5: "\<not> list_ex (sameName ''Cy'') (players r)" unfolding r by code_simp
  have h6: "find (\<lambda>p. pid p = ''B'') (players r) = Some ?p" unfolding r by code_simp
  have h7: "nth_opt (questions r) (currentIndex r) = Some ?q" unfolding r by code_simp
  have h8: "''B'' \<notin> set (answeredPlayers r)" unfolding r by code_simp
  have h9: "Suc (length (answeredPlayers r)) = length (players r)" unfolding r by code_simp
  have ids: "map pid (players r) = [''A'', ''B'']" unfolding r by code_simp
  have ok: "\<not> isl (answer ''B'' ''a'' ''R'' 1500 ?s)" by code_simp
  have cq: "correct ?q = ''a''" by code_simp
  note t = join_mid_question[OF h1 h2 h3 h4 h5, where y = "''B''" and p = ?p and q = ?q
      and opt = "''a''" and now = 1500]
  have pre: "find (\<lambda>p. pid p = ''B'') (players r) = Some ?p
        \<and> nth_opt (questions r) (currentIndex r) = Some ?q
        \<and> ''B'' \<notin> set (answeredPlayers r)
        \<and> Suc (length (answeredPlayers r)) = length (players r)"
    using h6 h7 h8 h9 by (intro conjI)
  note u = mp[OF conjunct2[OF t] pre]
  from ok obtain s1 o1 where e1: "answer ''B'' ''a'' ''R'' 1500 ?s = Inr (s1, o1)"
    by (cases "answer ''B'' ''a'' ''R'' 1500 ?s") auto
  from ok conjunct2[OF conjunct2[OF u]]
  have ok2: "\<not> isl (answer ''B'' ''a'' ''R'' 1500 (fst (join_room ''C'' ''Cy'' ''R'' ?s)))"
    by simp
  then obtain s2 o2 where e2: "answer ''B'' ''a'' ''R'' 1500 (fst (join_room ''C'' ''Cy'' ''R'' ?s)) = Inr (s2, o2)"
    by (cases "answer ''B'' ''a'' ''R'' 1500 (fst (join_room ''C'' ''Cy'' ''R'' ?s))") auto
  from conjunct1[OF u] e1 have "o1 = [(ToRoom ''R'', AllAnswered ''a'')]"
    by (simp add: cq)
  moreover from conjunct1[OF conjunct2[OF u]] e2 have "o2 = []" by simp
  moreover from conjunct1[OF t] ids
  have "ids_in ''R'' (Inr (join_room ''C'' ''Cy'' ''R'' ?s)) = [''A'', ''B'', ''C'']"
    by (simp add: ids_in_def final_room_def)
  ultimately show ?thesis using e1 e2 ok2 by (simp add: emitted_def)
qed

section \<open>Rooms that are gone\<close>

lemma absent_noop:
  assumes "room_at s c = None"
  shows "answer x opt c now s = Inr (s, [])" and "kick_player c y s = (s, [])"
    and "end_quiz c s = (s, [])" and "send_multiple_questions c qs s = (s, [])"
    and "start_quiz c now s = (s, [])" and "startNextQuestion c now s = (s, [])"
    and "endCurrentQuestion c now s = (s, [])"
    and "join_room x nm c s = (s, [(ToSocket x, RoomError ''Room does not exist.'')])"
  using assms
  by (simp_all add: answer_def kick_player_def end_quiz_def send_multiple_questions_def
      start_quiz_def startNextQuestion_def endCurrentQuestion_def join_room_def)


lemma disconnect_room_hosts:
  "map_option hostId (heap (fst (disconnect_room x ca acc)) b)
     = map_option hostId (heap (fst acc) b)"
  by (simp add: disconnect_room_def put_def deleteRoom_def Let_def split: option.splits)

lemma disconnect_room_rooms:
  "rooms (fst (disconnect_room x ca acc)) =
     (if map_option hostId (heap (fst acc) (snd ca)) = Some x
      then filter (\<lambda>e. fst e \<noteq> fst ca) (rooms (fst acc)) else rooms (fst acc))"
  by (simp add: disconnect_room_def put_def deleteRoom_def Let_def split: option.splits)

lemma disconnect_room_timers:
  "timers (fst (disconnect_room x ca acc)) = timers (fst acc)"
  by (simp add: disconnect_room_def put_def deleteRoom_def Let_def split: option.splits)

lemma disconnect_fold_hosts:
  "map_option hostId (heap (fst (fold (disconnect_room x) xs acc)) b)
     = map_option hostId (heap (fst acc) b)"
  by (induction xs arbitrary: acc) (simp_all add: disconnect_room_hosts)

lemma disconnect_fold_shrinks:
  "set (rooms (fst (fold (disconnect_room x) xs acc))) \<subseteq> set (rooms (fst acc))"
proof (induction xs arbitrary: acc)
  case Nil
  show ?case by simp
next
  case (Cons ca xs)
  have "set (rooms (fst (disconnect_room x ca acc))) \<subseteq> set (rooms (fst acc))"
    by (auto simp: disconnect_room_rooms)
  with Cons[of "disconnect_room x ca acc"] show ?case by auto
qed

lemma disconnect_fold_timers:
  "timers (fst (fold (disconnect_room x) xs acc)) = timers (fst acc)"
  by (induction xs arbitrary: acc) (simp_all add: disconnect_room_timers)

lemma disconnect_fold_deletes:
  assumes "(c, a) \<in> set xs" and "map_option hostId (heap (fst acc) a) = Some x"
  shows "c \<notin> fst ` set (rooms (fst (fold (disconnect_room x) xs acc)))"
  using assms
proof (induction xs arbitrary: acc)
  case Nil
  then show ?case by simp
next
  case (Cons ca xs)
  let ?acc = "disconnect_room x ca acc"
  show ?case
  proof (cases "ca = (c, a)")
    case True
    with Cons.prems(2) have "c \<notin> fst ` set (rooms (fst ?acc))"
      by (auto simp: disconnect_room_rooms)
    with disconnect_fold_shrinks[of x xs ?acc] show ?thesis by auto
  next
    case False
    with Cons.prems(1) have "(c, a) \<in> set xs" by simp
    moreover have "map_option hostId (heap (fst ?acc) a) = Some x"
      using Cons.prems(2) by (simp add: disconnect_room_hosts)
    ultimately show ?thesis using Cons.IH[of ?acc] by simp
  qed
qed

lemma host_leaving_deletes:
  assumes "room_at s c = Some (a, r)" and "hostId r = x"
  shows "room_at (fst (disconnect x s)) c = None"
proof -
  from assms(1) have m: "map_of (rooms s) c = Some a" and h: "heap s a = Some r"
    by (auto simp: room_at_def split: option.splits)
  from m have "(c, a) \<in> set (rooms s)" by (rule map_of_SomeD)
  moreover have "map_option hostId (heap (fst (s\<lparr>sockets := sockets s - {x}\<rparr>, [])) a) = Some x"
    using h assms(2) by simp
  ultimately have "c \<notin> fst ` set (rooms (fst (disconnect x s)))"
    unfolding disconnect_def by (rule disconnect_fold_deletes)
  then have "map_of (rooms (fst (disconnect x s))) c = None"
    by (simp add: map_of_eq_None_iff)
  then show ?thesis by (simp add: room_at_def)
qed

lemma disconnect_timers: "timers (fst (disconnect x s)) = timers s"
  by (simp add: disconnect_def disconnect_fold_timers)

lemma disconnect_p1_keeps: "map fst (rooms_p1 (fst (disconnect_p1 x s))) = map fst (rooms_p1 s)"
  by (simp add: disconnect_p1_def Let_def comp_def)

text \<open>
  C7, as the code has it. When the socket that disconnects is the host of a room, the room
  is no longer registered afterwards. For a room code that is not registered the handlers
  \<^verbatim>\<open>answer\<close>, \<^verbatim>\<open>kick-player\<close>, \<^verbatim>\<open>end-quiz\<close>, \<^verbatim>\<open>send-multiple-questions\<close> and
  \<^verbatim>\<open>start-quiz\<close> and the callbacks \<^verbatim>\<open>startNextQuestion\<close> and
  \<^verbatim>\<open>endCurrentQuestion\<close> change nothing and emit nothing, and \<^verbatim>\<open>join-room\<close> changes
  nothing and replies that the room does not exist. The listing \<^verbatim>\<open>part_001\<close> records no host,
  and its \<^verbatim>\<open>disconnect\<close> handler removes no room.
\<close>

theorem host_disconnect:
  "(room_at s c = Some (a, r) \<and> hostId r = x \<longrightarrow>
      room_at (fst (disconnect x s)) c = None)
   \<and> (room_at s' c = None \<longrightarrow>
        answer y opt c now s' = Inr (s', []) \<and> kick_player c z s' = (s', [])
      \<and> end_quiz c s' = (s', []) \<and> send_multiple_questions c qs s' = (s', [])
      \<and> start_quiz c now s' = (s', []) \<and> startNextQuestion c now s' = (s', [])
      \<and> endCurrentQuestion c now s' = (s', [])
      \<and> join_room y nm c s' = (s', [(ToSocket y, RoomError ''Room does not exist.'')]))
   \<and> map fst (rooms_p1 (fst (disconnect_p1 x s1))) = map fst (rooms_p1 s1)"
  using host_leaving_deletes[of s c a r x] absent_noop[of s' c] disconnect_p1_keeps[of x s1]
  by simp

text \<open>
  After the host has left, the countdown and the deadline of the room are still pending
  and the countdown still broadcasts to the room; a join-room event for the code is
  answered with an error, and a create-room event followed by a join-room event sets up
  a new room under the code.
\<close>

theorem host_gone_not_quiet:
  "final_room ''R'' (run hostGone init) = None
   \<and> pending (run hostGone init) = [0, 1]
   \<and> emitted (step 2000 (Fire 0) (state_after hostGone)) = [(ToRoom ''R'', TimeLeft 4)]
   \<and> emitted (step 3000 (JoinRoom ''B'' ''Bo'' ''R'') (state_after hostGone))
       = [(ToSocket ''B'', RoomError ''Room does not exist.'')]
   \<and> ids_in ''R'' (run (hostGone @ [(3000, CreateRoom ''A'' ''R'' None),
                                     (3100, JoinRoom ''B'' ''Bo'' ''R'')]) init) = [''B'']"
  by code_simp

theorem host_disconnect_witness:
  "room_at (state_after quiz2) ''R'' \<noteq> None
   \<and> room_at (fst (disconnect ''h'' (state_after quiz2))) ''R'' = None
   \<and> answer ''A'' ''a'' ''R'' 2000 (fst (disconnect ''h'' (state_after quiz2)))
       = Inr (fst (disconnect ''h'' (state_after quiz2)), [])
   \<and> endCurrentQuestion ''R'' 8500 (fst (disconnect ''h'' (state_after quiz2)))
       = (fst (disconnect ''h'' (state_after quiz2)), [])
   \<and> snd (join_room ''B'' ''Bo'' ''R'' (fst (disconnect ''h'' (state_after quiz2))))
       = [(ToSocket ''B'', RoomError ''Room does not exist.'')]"
proof -
  let ?s = "state_after quiz2"
  let ?s' = "fst (disconnect ''h'' ?s)"
  have ne: "room_at ?s ''R'' \<noteq> None" by code_simp
  then obtain a r where h1: "room_at ?s ''R'' = Some (a, r)" by auto
  then have r: "r = snd (the (room_at ?s ''R''))" by simp
  have h2: "hostId r = ''h''" unfolding r by code_simp
  note t = host_disconnect[of ?s "''R''" a r "''h''" ?s' "''A''" "''a''" 2000]
  have gone: "room_at ?s' ''R'' = None"
    using conjunct1[OF t] h1 h2 by simp
  note u = mp[OF conjunct1[OF conjunct2[OF host_disconnect[of ?s "''R''" a r "''h''" ?s' "''A''" "''a''" 2000 _ _ "''Bo''"]]] gone]
  note v = mp[OF conjunct1[OF conjunct2[OF host_disconnect[of ?s "''R''" a r "''h''" ?s' "''B''" "''a''" 8500 _ _ "''Bo''"]]] gone]
  from ne gone u v show ?thesis by simp
qed

section \<open>The end of the quiz\<close>








section \<open>Scores never drop while answers are in time\<close>











lemma room_at_heap: "room_at s c = Some (a, r) \<Longrightarrow> heap s a = Some r"
  by (auto simp: room_at_def split: option.splits)

lemma heap_clearTimer [simp]: "heap (clearTimer ho s) = heap s"
  by (simp add: clearTimer_def split: option.splits)

lemma heap_setTimer [simp]: "heap (snd (setTimer d t s)) = heap s"
  by (simp add: setTimer_def)

lemma heap_put [simp]: "heap (put a r s) = (heap s)(a := Some r)"
  by (simp add: put_def)

lemma heap_deleteRoom [simp]: "heap (deleteRoom c s) = heap s"
  by (simp add: deleteRoom_def)

lemma heap_lockByAnswers [simp]: "heap (fst (lockByAnswers a c now q r s)) = heap s"
  by (simp add: lockByAnswers_def Let_def split_def)



















section \<open>Locking a question\<close>

text \<open>
  The lock by answers cancels the deadline: the handle in \<^verbatim>\<open>room.timer\<close> is no longer
  pending afterwards.
\<close>

lemma answers_cancel_deadline:
  assumes "length (answeredPlayers r) = length (players r)" and "timer r = Some h"
    and "h < nextHandle s"
  shows "map_of (timers (fst (lockByAnswers a c now q r s))) h = None"
proof -
  have "h \<notin> fst ` set (filter (\<lambda>e. fst e \<noteq> h) xs)" for xs :: "(handle \<times> rat \<times> task) list"
    by auto
  then have "h \<notin> fst ` set (timers (clearTimer (countdownInterval r) (clearTimer (timer r) s)))"
    using assms(2) by (auto simp: clearTimer_def split: option.splits)
  moreover have "nextHandle (clearTimer (countdownInterval r) (clearTimer (timer r) s))
      = nextHandle s"
    by (simp add: clearTimer_def split: option.splits)
  ultimately have "h \<notin> fst ` set (timers (fst (lockByAnswers a c now q r s)))"
    using assms(1,3) by (auto simp: lockByAnswers_def Let_def split_def setTimer_def)
  then show ?thesis by (simp add: map_of_eq_None_iff)
qed

text \<open>
  C2. The answer path cancels the deadline timer, but nothing stops the answer path once the
  deadline has run. Here the deadline of the first question runs, Bo then sends the last
  missing answer during the reveal pause, and the question is locked and ended a second
  time: two reveals, two \<open>question-ended\<close>, and the index of the current question goes from
  0 to 2 after a single question.
\<close>

theorem lock_twice:
  "index_in ''R'' (run doubleLock init) = Some 2
   \<and> count_list (map snd (emitted (run doubleLock init))) (AllAnswered ''a'') = 2
   \<and> count_list (map snd (emitted (run doubleLock init))) QuestionEnded = 2"
  by code_simp

section \<open>Answered players and the roster\<close>

lemma all_within_upd:
  "all_within s \<Longrightarrow> heap s' = (heap s)(a := Some r) \<Longrightarrow> answered_within r \<Longrightarrow> all_within s'"
  by (auto simp: all_within_def split: option.splits)

lemma all_within_same: "all_within s \<Longrightarrow> heap s' = heap s \<Longrightarrow> all_within s'"
  by (simp add: all_within_def)

lemma all_within_at: "all_within s \<Longrightarrow> heap s a = Some r \<Longrightarrow> answered_within r"
  by (auto simp: all_within_def split: option.splits dest: spec[of _ a])

lemma find_pid: "find (\<lambda>p. pid p = x) ps = Some p \<Longrightarrow> x \<in> pid ` set ps"
  by (induction ps) (auto split: if_splits)

text \<open>Answers, disconnects and the start of a question keep the answered players within
  the roster.\<close>

lemma answer_keeps_within:
  assumes w: "all_within s" and a: "answer x opt c now s = Inr (s', out)"
  shows "all_within s'"
proof (cases "room_at s c")
  case None
  with a w show ?thesis by (simp add: answer_ignored)
next
  case (Some ar)
  then obtain a0 r where ar: "room_at s c = Some (a0, r)" by (cases ar) auto
  show ?thesis
  proof (cases "find (\<lambda>p. pid p = x) (players r) = None
      \<or> nth_opt (questions r) (currentIndex r) = None \<or> x \<in> set (answeredPlayers r)")
    case True
    with ar have "answer x opt c now s = Inr (s, [])" by (intro answer_ignored) auto
    with a w show ?thesis by simp
  next
    case False
    then obtain p q where pq: "find (\<lambda>p. pid p = x) (players r) = Some p"
      "nth_opt (questions r) (currentIndex r) = Some q" "x \<notin> set (answeredPlayers r)" by auto
    let ?r1 = "r\<lparr>answeredPlayers := answeredPlayers r @ [x]\<rparr>"
    from answer_accepted[OF ar pq, of opt now] a
    obtain r2 where r2: "(if isCorrect opt q then scoreCorrect x now q ?r1 else Inr ?r1) = Inr r2"
      and s': "lockByAnswers a0 c now q r2 (put a0 r2 s) = (s', out)"
      by (auto split: sum.splits)
    from r2 have "answeredPlayers r2 = answeredPlayers r @ [x]"
      and "map pid (players r2) = map pid (players r)"
      by (auto dest: scoreCorrect_keeps(1,4) split: if_splits)
    then have k: "answeredPlayers r2 = answeredPlayers r @ [x]"
      "pid ` set (players r2) = pid ` set (players r)"
      by (simp, metis set_map)
    from all_within_at[OF w room_at_heap[OF ar]] find_pid[OF pq(1)] k
    have "answered_within r2" by (auto simp: answered_within_def)
    moreover have "heap s' = (heap s)(a0 := Some r2)"
      using s' heap_lockByAnswers[of a0 c now q r2 "put a0 r2 s"] by simp
    ultimately show ?thesis using w by (intro all_within_upd[of s s' a0 r2])
  qed
qed

lemma disconnect_room_keeps_within:
  "all_within (fst acc) \<Longrightarrow> all_within (fst (disconnect_room x ca acc))"
proof (cases "heap (fst acc) (snd ca)")
  case None
  assume "all_within (fst acc)"
  with None show ?thesis by (simp add: disconnect_room_def)
next
  case (Some r)
  assume w: "all_within (fst acc)"
  let ?r' = "r\<lparr>players := filter (\<lambda>p. pid p \<noteq> x) (players r),
                 answeredPlayers := removeAll x (answeredPlayers r)\<rparr>"
  from all_within_at[OF w Some] have "answered_within ?r'"
    by (auto simp: answered_within_def)
  with w Some show ?thesis
    by (auto simp: disconnect_room_def Let_def
        intro: all_within_same[of "fst acc"] all_within_upd[of "fst acc" _ "snd ca" ?r'])
qed

lemma disconnect_keeps_within:
  assumes "all_within s"
  shows "all_within (fst (disconnect x s))"
proof -
  have "all_within (fst acc) \<Longrightarrow> all_within (fst (fold (disconnect_room x) xs acc))" for xs acc
    by (induction xs arbitrary: acc) (simp_all add: disconnect_room_keeps_within)
  moreover have "all_within (fst (s\<lparr>sockets := sockets s - {x}\<rparr>, [] :: emit list))"
    using assms by (simp add: all_within_def)
  ultimately show ?thesis unfolding disconnect_def by blast
qed

lemma startNextQuestion_keeps_within:
  assumes "all_within s"
  shows "all_within (fst (startNextQuestion c now s))"
proof (cases "room_at s c")
  case None
  with assms show ?thesis by (simp add: startNextQuestion_def)
next
  case (Some ar)
  then obtain a r where ar: "room_at s c = Some (a, r)" by (cases ar) auto
  show ?thesis
  proof (cases "length (questions r) \<le> currentIndex r")
    case True
    with ar assms show ?thesis by (simp add: startNextQuestion_def)
  next
    case False
    with ar assms show ?thesis
      by (auto simp: startNextQuestion_def Let_def split_def answered_within_def
          intro!: all_within_upd[of s _ a])
  qed
qed

text \<open>
  C4. \<^verbatim>\<open>kick-player\<close> removes the player from the roster only. The \<^verbatim>\<open>disconnect\<close>
  handler that runs for the removed socket no longer finds it in the roster and so leaves
  \<open>answeredPlayers\<close> alone. After Ann is removed she is still counted as having answered,
  and Bo's answer locks the question although Cy has not answered.
\<close>

theorem kick_leaves_answer:
  "ids_in ''R'' (run kickRun init) = [''B'', ''C'']
   \<and> answered_in ''R'' (run kickRun init) = [''A'']
   \<and> emitted (step 1600 (Answer ''B'' ''b'' ''R'') (state_after kickRun))
       = [(ToRoom ''R'', AllAnswered ''a'')]"
  by code_simp

end
